theory Spec2Isabelle
  imports Main "HOL-Library.AList"
begin

section \<open>Python values received from the control utility\<close>

text \<open>
  The status handed to the presenters is whatever \<^verbatim>\<open>json.loads\<close> produced, or Python's
  \<^verbatim>\<open>None\<close>. The values are modelled with one constructor per Python type that the JSON
  decoder can produce, numbers with a fraction or an exponent (Python floats) excepted.
  A \<^verbatim>\<open>dict\<close> is an association list with distinct keys in insertion order; text is a list
  of 8-bit characters, each standing for the code point of the same number.
\<close>

datatype pyval =
    PNone
  | PBool bool
  | PInt int
  | PStr string
  | PList "pyval list"
  | PDict "(string \<times> pyval) list"

datatype error =
    KeyError pyval
  | TypeError
  | IndexError
  | ValueError
  | OverflowError
  | OSError
  | JSONDecodeError
  | FileNotFoundError
  | Outside_fragment

subsection \<open>Primitive operations of the interpreter\<close>

text \<open>\<^verbatim>\<open>x[key]\<close> with a string key: only a dict can answer; a list or a string wants an
  integer index and every other value is not subscriptable (both \<^verbatim>\<open>TypeError\<close>).\<close>

fun py_getitem :: "pyval \<Rightarrow> string \<Rightarrow> error + pyval" where
  "py_getitem (PDict d) k =
     (case map_of d k of None \<Rightarrow> Inl (KeyError (PStr k)) | Some v \<Rightarrow> Inr v)"
| "py_getitem _ k = Inl TypeError"

text \<open>\<^verbatim>\<open>len(x)\<close>: defined on strings, lists and dicts.\<close>

fun py_len :: "pyval \<Rightarrow> error + nat" where
  "py_len (PStr s) = Inr (length s)"
| "py_len (PList xs) = Inr (length xs)"
| "py_len (PDict d) = Inr (length d)"
| "py_len _ = Inl TypeError"

text \<open>\<^verbatim>\<open>x[0]\<close>: the first element of a list, the first character of a string; on a dict
  the integer \<open>0\<close> is looked up as a key, and the keys of a decoded object are strings.\<close>

fun py_getitem0 :: "pyval \<Rightarrow> error + pyval" where
  "py_getitem0 (PList (x # xs)) = Inr x"
| "py_getitem0 (PList []) = Inl IndexError"
| "py_getitem0 (PStr (c # cs)) = Inr (PStr [c])"
| "py_getitem0 (PStr []) = Inl IndexError"
| "py_getitem0 (PDict d) = Inl (KeyError (PInt 0))"
| "py_getitem0 _ = Inl TypeError"

text \<open>\<^verbatim>\<open>x == n\<close> for an integer literal \<open>n\<close>: a bool compares as the integer 0 or 1, a value
  of any other type is unequal.\<close>

fun py_eq_int :: "pyval \<Rightarrow> int \<Rightarrow> bool" where
  "py_eq_int (PInt m) n = (m = n)"
| "py_eq_int (PBool b) n = ((if b then 1 else 0) = n)"
| "py_eq_int _ n = False"

text \<open>\<^verbatim>\<open>x == "literal"\<close>.\<close>

fun py_eq_str :: "pyval \<Rightarrow> string \<Rightarrow> bool" where
  "py_eq_str (PStr s) t = (s = t)"
| "py_eq_str _ t = False"

text \<open>A conditional tests the truth value: \<^verbatim>\<open>None\<close>, \<^verbatim>\<open>False\<close>, zero and the empty
  string, list and dict are false.\<close>

fun py_truth :: "pyval \<Rightarrow> bool" where
  "py_truth PNone = False"
| "py_truth (PBool b) = b"
| "py_truth (PInt i) = (i \<noteq> 0)"
| "py_truth (PStr s) = (s \<noteq> [])"
| "py_truth (PList xs) = (xs \<noteq> [])"
| "py_truth (PDict d) = (d \<noteq> [])"

text \<open>\<^verbatim>\<open>x // k\<close> for a positive integer literal \<open>k\<close>: floor division on integers (a bool
  counts as 0 or 1); a string, list, dict or \<^verbatim>\<open>None\<close> raises \<^verbatim>\<open>TypeError\<close>. The division of
  HOL on \<open>int\<close> rounds towards minus infinity, as Python's does.\<close>

fun py_floordiv :: "pyval \<Rightarrow> int \<Rightarrow> error + int" where
  "py_floordiv (PInt n) k = Inr (n div k)"
| "py_floordiv (PBool b) k = Inr ((if b then 1 else 0) div k)"
| "py_floordiv _ k = Inl TypeError"

text \<open>\<^verbatim>\<open>for x in v\<close>: the elements of a list, the characters of a string, the keys of a
  dict.\<close>

fun py_iter :: "pyval \<Rightarrow> error + pyval list" where
  "py_iter (PList xs) = Inr xs"
| "py_iter (PStr s) = Inr (map (\<lambda>c. PStr [c]) s)"
| "py_iter (PDict d) = Inr (map (\<lambda>kv. PStr (fst kv)) d)"
| "py_iter _ = Inl TypeError"

text \<open>Sequencing of evaluations that may raise: the first exception wins.\<close>

fun err_bind :: "error + 'a \<Rightarrow> ('a \<Rightarrow> error + 'b) \<Rightarrow> error + 'b" where
  "err_bind (Inl e) f = Inl e"
| "err_bind (Inr x) f = f x"

subsection \<open>Conversion to text\<close>

definition digit_char :: "nat \<Rightarrow> char" where
  "digit_char n = ''0123456789abcdef'' ! n"

fun str_nat :: "nat \<Rightarrow> string" where
  "str_nat n = (if n < 10 then [digit_char n] else str_nat (n div 10) @ [digit_char (n mod 10)])"

declare str_nat.simps [simp del]

definition str_int :: "int \<Rightarrow> string" where
  "str_int i = (if i < 0 then CHR ''-'' # str_nat (nat (- i)) else str_nat (nat i))"

text \<open>\<^verbatim>\<open>repr\<close> of a string: single quotes unless the text has a single quote and no double
  quote; the quote and the backslash are escaped, tab, newline and carriage return have
  their letter escapes, and a character that is not printable is written \<^verbatim>\<open>\xhh\<close>.\<close>

definition printable :: "char \<Rightarrow> bool" where
  "printable c = (let n = (of_char c :: nat) in (32 \<le> n \<and> n < 127) \<or> (161 \<le> n \<and> n \<noteq> 173))"

definition repr_char :: "char \<Rightarrow> char \<Rightarrow> string" where
  "repr_char q c =
     (if c = q \<or> c = CHR 0x5C then [CHR 0x5C, c]
      else if c = CHR 0x09 then [CHR 0x5C, CHR ''t'']
      else if c = CHR 0x0A then [CHR 0x5C, CHR ''n'']
      else if c = CHR 0x0D then [CHR 0x5C, CHR ''r'']
      else if printable c then [c]
      else [CHR 0x5C, CHR ''x'', digit_char (of_char c div 16), digit_char (of_char c mod 16)])"

definition repr_str :: "string \<Rightarrow> string" where
  "repr_str s =
     (let q = (if CHR 0x27 \<in> set s \<and> CHR 0x22 \<notin> set s then CHR 0x22 else CHR 0x27)
      in q # concat (map (repr_char q) s) @ [q])"

fun py_repr :: "pyval \<Rightarrow> string"
  and repr_elems :: "pyval list \<Rightarrow> string"
  and repr_items :: "(string \<times> pyval) list \<Rightarrow> string" where
  "py_repr PNone = ''None''"
| "py_repr (PBool b) = (if b then ''True'' else ''False'')"
| "py_repr (PInt i) = str_int i"
| "py_repr (PStr s) = repr_str s"
| "py_repr (PList xs) = ''['' @ repr_elems xs @ '']''"
| "py_repr (PDict d) = ''{'' @ repr_items d @ ''}''"
| "repr_elems [] = []"
| "repr_elems [x] = py_repr x"
| "repr_elems (x # y # ys) = py_repr x @ '', '' @ repr_elems (y # ys)"
| "repr_items [] = []"
| "repr_items [(k, v)] = repr_str k @ '': '' @ py_repr v"
| "repr_items ((k, v) # p # ps) = repr_str k @ '': '' @ py_repr v @ '', '' @ repr_items (p # ps)"

text \<open>\<^verbatim>\<open>str(x)\<close>, which is also what an f-string field and \<^verbatim>\<open>Template.substitute\<close> insert: a
  string stands for itself, every other value for its \<^verbatim>\<open>repr\<close>.\<close>

fun py_str :: "pyval \<Rightarrow> string" where
  "py_str (PStr s) = s"
| "py_str v = py_repr v"

section \<open>The tray and window icon (App.update_tray)\<close>

datatype icon = not_connected | connected | busy

record app =
  tray_icon :: icon
  window_icon :: icon

datatype 'st outcome = Done 'st | Raised error 'st

definition update_tray :: "pyval \<Rightarrow> app \<Rightarrow> app outcome" where
  "update_tray status a =
     (if status = PNone then
        Done (a\<lparr>tray_icon := not_connected, window_icon := not_connected\<rparr>)
      else
        case py_getitem status ''internet_status'' of
          Inl e \<Rightarrow> Raised e a
        | Inr internet_status \<Rightarrow>
           (case py_getitem status ''running_processes'' of
              Inl e \<Rightarrow> Raised e a
            | Inr running \<Rightarrow>
               (case py_len running of
                  Inl e \<Rightarrow> Raised e a
                | Inr n \<Rightarrow>
                   if n > 0 then
                     Done (a\<lparr>tray_icon := busy, window_icon := busy\<rparr>)
                   else if py_eq_str internet_status ''connected_local'' then
                     Done (a\<lparr>tray_icon := connected, window_icon := connected\<rparr>)
                   else
                     Done (a\<lparr>tray_icon := not_connected, window_icon := not_connected\<rparr>))))"

section \<open>The status panel (StatusInfo)\<close>

subsection \<open>Local date and time of a timestamp\<close>

text \<open>
  \<^verbatim>\<open>datetime.fromtimestamp\<close> belongs to the host: its answer depends on the time zone, the
  C library and the interpreter. The panel's method therefore takes the conversion as a
  parameter, a function from the value of \<^verbatim>\<open>last_backup_time\<close> to the fields of the local
  date and time, or to the exception the call raises.
\<close>

record datetime =
  year :: int
  month :: int
  day :: int
  hour :: int
  minute :: int
  second :: int

text \<open>\<^verbatim>\<open>strftime("%m/%d/%Y %I:%M:%S %p")\<close>: two-digit month, day, hour on the 12-hour clock,
  minute and second, and \<^verbatim>\<open>AM\<close> or \<^verbatim>\<open>PM\<close> as the C and English locales write them. The
  year is written by the C library, which on a Linux host does not pad it: four digits
  from the year 1000 on, fewer below.\<close>

definition pad2 :: "int \<Rightarrow> string" where
  "pad2 n = (if n < 10 then CHR ''0'' # str_int n else str_int n)"

definition strftime :: "datetime \<Rightarrow> string" where
  "strftime dt =
     pad2 (month dt) @ ''/'' @ pad2 (day dt) @ ''/'' @ str_int (year dt) @ '' '' @
     pad2 (if hour dt mod 12 = 0 then 12 else hour dt mod 12) @ '':'' @
     pad2 (minute dt) @ '':'' @ pad2 (second dt) @ '' '' @
     (if hour dt < 12 then ''AM'' else ''PM'')"

subsection \<open>Class attributes: the action table and the text templates\<close>

definition statuses :: "(string \<times> string) list" where
  "statuses =
     [(''FULL'', ''Full file backup running.''),
      (''INCR'', ''Incremental file backup running.''),
      (''IDLE'', ''Idle.'')]"

text \<open>\<^verbatim>\<open>self.statuses[key]\<close>: a list or a dict is not hashable (\<^verbatim>\<open>TypeError\<close>); any other key
  that is not in the table raises \<^verbatim>\<open>KeyError\<close>.\<close>

fun statuses_getitem :: "pyval \<Rightarrow> error + string" where
  "statuses_getitem (PStr a) =
     (case map_of statuses a of None \<Rightarrow> Inl (KeyError (PStr a)) | Some t \<Rightarrow> Inr t)"
| "statuses_getitem (PList xs) = Inl TypeError"
| "statuses_getitem (PDict d) = Inl TypeError"
| "statuses_getitem v = Inl (KeyError v)"

definition status_format :: "string \<Rightarrow> string \<Rightarrow> string" where
  "status_format status progress = status @ '' '' @ progress"

definition eta_format :: "string \<Rightarrow> string" where
  "eta_format time = ''ETA: '' @ time"

definition last_backup_format :: "string \<Rightarrow> string" where
  "last_backup_format date = ''Last backup on '' @ date"

definition connect_to_local_format :: "string \<Rightarrow> string" where
  "connect_to_local_format status = status @ ''onnected to local UrBackup server.''"

definition last_seen_format :: "string \<Rightarrow> string" where
  "last_seen_format minutes = ''Local server last seen '' @ minutes @ '' minutes ago.''"

subsection \<open>The widgets\<close>

text \<open>The panel owns four labels, a progress bar and a list of server lines; the record
  holds what each of them shows.\<close>

record status_info =
  status_text :: string
  eta_text :: string
  progress_bar :: int
  last_backup :: string
  servers :: "string list"
  connect_status :: string

text \<open>The constructor's widgets. A fresh \<^verbatim>\<open>QProgressBar\<close> has the range 0..100 and the value
  \<open>-1\<close>.\<close>

definition status_info_init :: status_info where
  "status_info_init =
     \<lparr>status_text = status_format ''Idle.'' [],
      eta_text = [],
      progress_bar = - 1,
      last_backup = [],
      servers = [],
      connect_status = connect_to_local_format ''Not c''\<rparr>"

text \<open>\<^verbatim>\<open>QProgressBar.setValue\<close> takes a C \<^verbatim>\<open>int\<close>: the binding raises \<^verbatim>\<open>TypeError\<close> for a value
  that is not an integer and \<^verbatim>\<open>OverflowError\<close> for one beyond 32 bits; the widget ignores a
  value outside its range 0..100.\<close>

fun setValue :: "pyval \<Rightarrow> status_info \<Rightarrow> status_info outcome" where
  "setValue (PInt n) w =
     (if n < - (2 ^ 31) \<or> 2 ^ 31 \<le> n then Raised OverflowError w
      else if 0 \<le> n \<and> n \<le> 100 then Done (w\<lparr>progress_bar := n\<rparr>)
      else Done w)"
| "setValue (PBool b) w = Done (w\<lparr>progress_bar := (if b then 1 else 0)\<rparr>)"
| "setValue _ w = Raised TypeError w"

text \<open>Statements in sequence: the next one runs on the widgets the previous one left,
  and an exception ends the method with the widgets as they are at that point.\<close>

fun and_then :: "'st outcome \<Rightarrow> ('st \<Rightarrow> 'st outcome) \<Rightarrow> 'st outcome" where
  "and_then (Done w) f = f w"
| "and_then (Raised e w) f = Raised e w"

subsection \<open>StatusInfo.update\_status\<close>

text \<open>Lines 132 to 145: the action, the progress text, the value for the progress bar and
  the ETA of the first running process, with their defaults when nothing runs.\<close>

definition read_process :: "pyval \<Rightarrow> error + (pyval \<times> string \<times> pyval \<times> pyval)" where
  "read_process status =
     err_bind (py_getitem status ''running_processes'') (\<lambda>running.
     err_bind (py_len running) (\<lambda>n.
       if n > 0 then
         err_bind (py_getitem0 running) (\<lambda>p.
         err_bind (py_getitem p ''action'') (\<lambda>curr_status.
         err_bind (py_getitem p ''eta_ms'') (\<lambda>eta.
         err_bind (py_getitem p ''percent_done'') (\<lambda>percent.
           if py_eq_int percent (- 1) then Inr (curr_status, ''Indexing.'', PInt 0, eta)
           else Inr (curr_status, py_str percent @ ''% done.'', percent, eta)))))
       else Inr (PStr ''IDLE'', [], PInt 0, PNone)))"

text \<open>Lines 151 to 155: the text of the ETA label.\<close>

definition eta_line :: "pyval \<Rightarrow> error + string" where
  "eta_line eta =
     (if eta \<noteq> PNone \<and> \<not> py_eq_int eta (- 1) then
        err_bind (py_floordiv eta 3600000) (\<lambda>h.
        err_bind (py_floordiv eta 60000) (\<lambda>m.
          Inr (eta_format (str_int h @ '' hours '' @ str_int m @ '' minutes''))))
      else Inr [])"

text \<open>Lines 131 to 156. The table lookup of line 148 is evaluated before the label is
  set, so a failing lookup leaves every widget untouched.\<close>

definition show_current :: "pyval \<Rightarrow> status_info \<Rightarrow> status_info outcome" where
  "show_current status w =
     (case read_process status of
        Inl e \<Rightarrow> Raised e w
      | Inr (curr_status, progress, percent, eta) \<Rightarrow>
         (case statuses_getitem curr_status of
            Inl e \<Rightarrow> Raised e w
          | Inr label \<Rightarrow>
             let w1 = w\<lparr>status_text := status_format label progress\<rparr> in
             (case eta_line eta of
                Inl e \<Rightarrow> Raised e w1
              | Inr t \<Rightarrow> setValue percent (w1\<lparr>eta_text := t\<rparr>))))"

text \<open>Lines 159 to 167: the label is written only when the key is there.\<close>

definition show_last_backup ::
  "(pyval \<Rightarrow> error + datetime) \<Rightarrow> (string \<times> pyval) list \<Rightarrow> status_info \<Rightarrow>
     status_info outcome" where
  "show_last_backup fromtimestamp d w =
     (case map_of d ''last_backup_time'' of
        None \<Rightarrow> Done w
      | Some t \<Rightarrow>
         (case fromtimestamp t of
            Inl e \<Rightarrow> Raised e w
          | Inr dt \<Rightarrow> Done (w\<lparr>last_backup := last_backup_format (strftime dt)\<rparr>)))"

text \<open>Lines 168 to 172: the list is emptied, then one line is added per server.\<close>

definition server_line :: "pyval \<Rightarrow> error + string" where
  "server_line server =
     err_bind (py_getitem server ''name'') (\<lambda>name.
     err_bind (py_getitem server ''internet_connection'') (\<lambda>internet.
       Inr (py_str name @ '' (Internet: '' @ (if py_truth internet then ''Yes'' else ''No'')
            @ '')'')))"

fun add_servers :: "pyval list \<Rightarrow> status_info \<Rightarrow> status_info outcome" where
  "add_servers [] w = Done w"
| "add_servers (server # rest) w =
     (case server_line server of
        Inl e \<Rightarrow> Raised e w
      | Inr line \<Rightarrow> add_servers rest (w\<lparr>servers := servers w @ [line]\<rparr>))"

definition show_servers :: "pyval \<Rightarrow> status_info \<Rightarrow> status_info outcome" where
  "show_servers status w =
     (let w1 = w\<lparr>servers := []\<rparr> in
      case err_bind (py_getitem status ''servers'') py_iter of
        Inl e \<Rightarrow> Raised e w1
      | Inr items \<Rightarrow> add_servers items w1)"

text \<open>Lines 173 to 181: the connection label.\<close>

definition show_connection :: "pyval \<Rightarrow> status_info \<Rightarrow> status_info outcome" where
  "show_connection status w =
     (case py_getitem status ''internet_status'' of
        Inl e \<Rightarrow> Raised e w
      | Inr internet_status \<Rightarrow>
         (case err_bind (py_getitem status ''time_since_last_lan_connection'')
                 (\<lambda>t. py_floordiv t 60000) of
            Inl e \<Rightarrow> Raised e w
          | Inr last_seen \<Rightarrow>
             Done (w\<lparr>connect_status :=
               (if py_eq_str internet_status ''wait_local'' then
                  ''Waiting for local UrBackup server.''
                else if py_eq_str internet_status ''no_server'' then ''No servers''
                else
                  connect_to_local_format
                    (if py_eq_str internet_status ''connected_local'' then ''C'' else ''Not c'')
                  @ [CHR 0x0A] @ last_seen_format (str_int last_seen))\<rparr>)))"

text \<open>The whole method, on a host whose \<^verbatim>\<open>datetime.fromtimestamp\<close> is the first argument.
  A status that is neither \<^verbatim>\<open>None\<close> nor a dict fails at the first
  subscript of line 136 with \<^verbatim>\<open>TypeError\<close>.\<close>

definition update_status ::
  "(pyval \<Rightarrow> error + datetime) \<Rightarrow> pyval \<Rightarrow> status_info \<Rightarrow> status_info outcome" where
  "update_status fromtimestamp status w =
     (case status of
        PNone \<Rightarrow>
          Done (w\<lparr>status_text := ''Could not get status!'',
                  eta_text := [],
                  progress_bar := 0,
                  last_backup := [],
                  servers := [],
                  connect_status := ''Unknown''\<rparr>)
      | PDict d \<Rightarrow>
          and_then (and_then (and_then
            (show_current status w)
            (show_last_backup fromtimestamp d))
            (show_servers status))
            (show_connection status)
      | _ \<Rightarrow> Raised TypeError w)"

section \<open>Decoding JSON (json.loads)\<close>

text \<open>
  The decoder of the standard library, on the part of JSON whose values are the ones
  of \<^typ>\<open>pyval\<close>: a number with a fraction or an exponent, the constants \<^verbatim>\<open>NaN\<close> and
  \<^verbatim>\<open>Infinity\<close>, and a \<^verbatim>\<open>\u\<close> escape of a code point from 256 on are answered with
  \<^const>\<open>Outside_fragment\<close>, which says nothing about what Python returns. A malformed
  text is Python's \<^verbatim>\<open>JSONDecodeError\<close>. The input is the text of the output, already
  decoded into characters.
\<close>

datatype token =
    T_lbrace | T_rbrace | T_lbrack | T_rbrack | T_comma | T_colon
  | T_string string
  | T_atom pyval

definition is_ws :: "char \<Rightarrow> bool" where
  "is_ws c = (c = CHR '' '' \<or> c = CHR 0x09 \<or> c = CHR 0x0A \<or> c = CHR 0x0D)"

definition is_digit :: "char \<Rightarrow> bool" where
  "is_digit c = (48 \<le> (of_char c :: nat) \<and> (of_char c :: nat) \<le> 57)"

definition hex_val :: "char \<Rightarrow> nat option" where
  "hex_val c =
     (let n = (of_char c :: nat) in
      if 48 \<le> n \<and> n \<le> 57 then Some (n - 48)
      else if 97 \<le> n \<and> n \<le> 102 then Some (n - 87)
      else if 65 \<le> n \<and> n \<le> 70 then Some (n - 55)
      else None)"

definition hex4 :: "char \<Rightarrow> char \<Rightarrow> char \<Rightarrow> char \<Rightarrow> nat option" where
  "hex4 a b c d =
     (case (hex_val a, hex_val b, hex_val c, hex_val d) of
        (Some x, Some y, Some z, Some u) \<Rightarrow> Some (((x * 16 + y) * 16 + z) * 16 + u)
      | _ \<Rightarrow> None)"

definition unescape :: "char \<Rightarrow> char option" where
  "unescape e =
     (if e = CHR 0x22 \<or> e = CHR 0x5C \<or> e = CHR ''/'' then Some e
      else if e = CHR ''b'' then Some (CHR 0x08)
      else if e = CHR ''f'' then Some (CHR 0x0C)
      else if e = CHR ''n'' then Some (CHR 0x0A)
      else if e = CHR ''r'' then Some (CHR 0x0D)
      else if e = CHR ''t'' then Some (CHR 0x09)
      else None)"

fun str_cons :: "char \<Rightarrow> error + (string \<times> string) \<Rightarrow> error + (string \<times> string)" where
  "str_cons c (Inl e) = Inl e"
| "str_cons c (Inr (s, rest)) = Inr (c # s, rest)"

text \<open>The text of a string literal, from behind its opening quote, and what follows the
  closing quote. A raw control character is refused (the decoder is strict).\<close>

fun scanstring :: "string \<Rightarrow> error + (string \<times> string)" where
  "scanstring [] = Inl JSONDecodeError"
| "scanstring (c # cs) =
     (if c = CHR 0x22 then Inr ([], cs)
      else if c = CHR 0x5C then
        (case cs of
           [] \<Rightarrow> Inl JSONDecodeError
         | e # rest \<Rightarrow>
            if e = CHR ''u'' then
              (case rest of
                 h1 # h2 # h3 # h4 # rest' \<Rightarrow>
                   (case hex4 h1 h2 h3 h4 of
                      None \<Rightarrow> Inl JSONDecodeError
                    | Some n \<Rightarrow>
                       if n < 256 then str_cons (char_of n) (scanstring rest')
                       else Inl Outside_fragment)
               | _ \<Rightarrow> Inl JSONDecodeError)
            else
              (case unescape e of
                 None \<Rightarrow> Inl JSONDecodeError
               | Some ch \<Rightarrow> str_cons ch (scanstring rest)))
      else if (of_char c :: nat) < 32 then Inl JSONDecodeError
      else str_cons c (scanstring cs))"

definition startswith :: "string \<Rightarrow> string \<Rightarrow> bool" where
  "startswith s p = (take (length p) s = p)"

definition int_of_digits :: "string \<Rightarrow> int" where
  "int_of_digits ds = foldl (\<lambda>a c. 10 * a + (int (of_char c) - 48)) 0 ds"

definition is_fraction :: "string \<Rightarrow> bool" where
  "is_fraction r = (case r of p # d # _ \<Rightarrow> p = CHR ''.'' \<and> is_digit d | _ \<Rightarrow> False)"

definition is_exponent :: "string \<Rightarrow> bool" where
  "is_exponent r =
     (case r of
        e # d # r' \<Rightarrow>
          (e = CHR ''e'' \<or> e = CHR ''E'') \<and>
          (is_digit d \<or>
           ((d = CHR ''+'' \<or> d = CHR ''-'') \<and> (case r' of d' # _ \<Rightarrow> is_digit d' | [] \<Rightarrow> False)))
      | _ \<Rightarrow> False)"

text \<open>A number: an optional minus sign, then a single zero or a run of digits that does
  not begin with zero. The interpreter refuses to convert more than 4300 digits to an
  integer (\<^verbatim>\<open>ValueError\<close>).\<close>

definition scan_number :: "string \<Rightarrow> error + (token \<times> string)" where
  "scan_number s =
     (let neg = startswith s ''-'';
          body = (if neg then tl s else s)
      in case body of
           [] \<Rightarrow> Inl JSONDecodeError
         | d # ds \<Rightarrow>
            if is_digit d then
              (let digits = (if d = CHR ''0'' then [d] else d # takeWhile is_digit ds);
                   rest = drop (length digits) body
               in if is_fraction rest \<or> is_exponent rest then Inl Outside_fragment
                  else if length digits > 4300 then Inl ValueError
                  else Inr (T_atom (PInt ((if neg then - 1 else 1) * int_of_digits digits)), rest))
            else if startswith s ''NaN'' \<or> startswith s ''Infinity'' \<or> startswith s ''-Infinity''
              then Inl Outside_fragment
            else Inl JSONDecodeError)"

fun next_token :: "string \<Rightarrow> error + (token \<times> string)" where
  "next_token [] = Inl JSONDecodeError"
| "next_token (c # cs) =
     (if c = CHR ''{'' then Inr (T_lbrace, cs)
      else if c = CHR ''}'' then Inr (T_rbrace, cs)
      else if c = CHR ''['' then Inr (T_lbrack, cs)
      else if c = CHR '']'' then Inr (T_rbrack, cs)
      else if c = CHR '','' then Inr (T_comma, cs)
      else if c = CHR '':'' then Inr (T_colon, cs)
      else if c = CHR 0x22 then
        (case scanstring cs of Inl e \<Rightarrow> Inl e | Inr (s, rest) \<Rightarrow> Inr (T_string s, rest))
      else if startswith (c # cs) ''null'' then Inr (T_atom PNone, drop 3 cs)
      else if startswith (c # cs) ''true'' then Inr (T_atom (PBool True), drop 3 cs)
      else if startswith (c # cs) ''false'' then Inr (T_atom (PBool False), drop 4 cs)
      else scan_number (c # cs))"

text \<open>The containers under construction, innermost first, and what may come next. A
  repeated key of an object keeps its place and takes the later value, as in
  \<^verbatim>\<open>dict(pairs)\<close>.\<close>

datatype frame = F_list "pyval list" | F_dict "(string \<times> pyval) list" string

datatype phase =
    P_value | P_first_elem | P_first_key | P_key | P_colon | P_after | P_done pyval

fun complete :: "pyval \<Rightarrow> frame list \<Rightarrow> phase \<times> frame list" where
  "complete v [] = (P_done v, [])"
| "complete v (F_list xs # st) = (P_after, F_list (xs @ [v]) # st)"
| "complete v (F_dict d k # st) = (P_after, F_dict (AList.update k v d) k # st)"

fun begin_value :: "token \<Rightarrow> frame list \<Rightarrow> error + (phase \<times> frame list)" where
  "begin_value (T_atom v) st = Inr (complete v st)"
| "begin_value (T_string s) st = Inr (complete (PStr s) st)"
| "begin_value T_lbrack st = Inr (P_first_elem, F_list [] # st)"
| "begin_value T_lbrace st = Inr (P_first_key, F_dict [] [] # st)"
| "begin_value _ st = Inl JSONDecodeError"

fun begin_key :: "token \<Rightarrow> frame list \<Rightarrow> error + (phase \<times> frame list)" where
  "begin_key (T_string k) (F_dict d _ # st) = Inr (P_colon, F_dict d k # st)"
| "begin_key _ st = Inl JSONDecodeError"

fun step :: "token \<Rightarrow> phase \<times> frame list \<Rightarrow> error + (phase \<times> frame list)" where
  "step t (P_value, st) = begin_value t st"
| "step t (P_first_elem, st) =
     (case (t, st) of
        (T_rbrack, F_list xs # st') \<Rightarrow> Inr (complete (PList xs) st')
      | _ \<Rightarrow> begin_value t st)"
| "step t (P_first_key, st) =
     (case (t, st) of
        (T_rbrace, F_dict d k # st') \<Rightarrow> Inr (complete (PDict d) st')
      | _ \<Rightarrow> begin_key t st)"
| "step t (P_key, st) = begin_key t st"
| "step t (P_colon, st) = (if t = T_colon then Inr (P_value, st) else Inl JSONDecodeError)"
| "step t (P_after, st) =
     (case (t, st) of
        (T_comma, F_list xs # st') \<Rightarrow> Inr (P_value, st)
      | (T_rbrack, F_list xs # st') \<Rightarrow> Inr (complete (PList xs) st')
      | (T_comma, F_dict d k # st') \<Rightarrow> Inr (P_key, st)
      | (T_rbrace, F_dict d k # st') \<Rightarrow> Inr (complete (PDict d) st')
      | _ \<Rightarrow> Inl JSONDecodeError)"
| "step t (P_done v, st) = Inl JSONDecodeError"

text \<open>The decoder: white space is skipped between tokens, and the text must end where
  the outermost value does.\<close>

function decode :: "phase \<times> frame list \<Rightarrow> string \<Rightarrow> error + pyval" where
  "decode state s =
     (case dropWhile is_ws s of
        [] \<Rightarrow> (case fst state of P_done v \<Rightarrow> Inr v | _ \<Rightarrow> Inl JSONDecodeError)
      | c # cs \<Rightarrow>
         (case next_token (c # cs) of
            Inl e \<Rightarrow> Inl e
          | Inr (t, rest) \<Rightarrow>
             (case step t state of
                Inl e \<Rightarrow> Inl e
              | Inr state' \<Rightarrow> decode state' rest)))"
  by pat_completeness auto
termination
proof (relation "measure (\<lambda>(state, s). length s)")
  show "wf (measure (\<lambda>(state, s). length s))" by simp
next
  fix state :: "phase \<times> frame list" and s c cs x t rest state'
  assume drop: "dropWhile is_ws s = c # cs" and tok: "next_token (c # cs) = Inr x"
    and x: "(t, rest) = x"
  have cons: "\<exists>v'. r = Inr (v', q)" if "str_cons ch r = Inr (v, q)" for ch r v q
    using that by (cases r) (auto split: prod.splits)
  have string_shorter: "length q < Suc (length u)" if "scanstring u = Inr (v, q)" for u v q
    using that
  proof (induction u arbitrary: v rule: scanstring.induct)
    case 1
    then show ?case by simp
  next
    case (2 c cs)
    show ?case
    proof (cases "c = CHR 0x22")
      case True
      with "2.prems" show ?thesis by simp
    next
      case quote: False
      show ?thesis
      proof (cases "c = CHR 0x5C")
        case False
        with quote "2.prems" obtain v' where "scanstring cs = Inr (v', q)"
          by (auto split: if_splits dest: cons)
        with "2.IH"(3) [OF quote False] "2.prems" quote False show ?thesis
          by (auto split: if_splits)
      next
        case True
        show ?thesis
        proof (cases cs)
          case Nil
          with "2.prems" quote True show ?thesis by simp
        next
          case (Cons e rest0)
          show ?thesis
          proof (cases "e = CHR ''u''")
            case False
            with "2.prems" quote True Cons obtain ch v' where
              "unescape e = Some ch" "scanstring rest0 = Inr (v', q)"
              by (auto split: option.splits dest: cons)
            with "2.IH"(2) [OF quote True Cons False] show ?thesis
              using Cons by fastforce
          next
            case u: True
            with "2.prems" quote True Cons obtain h1 h2 h3 h4 rest' n v' where
              r: "rest0 = h1 # h2 # h3 # h4 # rest'" "hex4 h1 h2 h3 h4 = Some n" "n < 256"
                 "scanstring rest' = Inr (v', q)"
              by (auto split: list.splits option.splits if_splits dest: cons)
            from "2.IH"(1) quote True Cons u r have "length q < Suc (length rest')"
              by blast
            with r(1) Cons show ?thesis by simp
          qed
        qed
      qed
    qed
  qed
  have number_shorter: "length q < Suc (length u)" if "scan_number (a # u) = Inr (k, q)"
    for a u k q
    using that
    by (auto simp: scan_number_def Let_def startswith_def split: list.splits if_splits)
  from tok x have "length rest < length (c # cs)"
    using string_shorter [of cs _ rest] number_shorter [of c cs t rest]
    by (auto split: if_splits sum.splits prod.splits simp: less_Suc_eq_le)
  also have "length (c # cs) \<le> length s"
    using length_dropWhile_le [of is_ws s] drop by simp
  finally show "((state', rest), (state, s)) \<in> measure (\<lambda>(state, s). length s)" by simp
qed

declare decode.simps [simp del]

definition json_loads :: "string \<Rightarrow> error + pyval" where
  "json_loads s = decode (P_value, []) s"

section \<open>The poller and the start of the application\<close>

text \<open>
  The host is what the program sees of the machine: the value of \<^verbatim>\<open>sys.platform\<close>, what
  running an argument vector yields (a completed process, or the exception of a program
  that cannot be started), and the log of what the program did to it: the argument
  vectors it handed to \<^verbatim>\<open>subprocess.run\<close>, the error dialogs it showed and the lines it
  printed.
\<close>

record completed_process =
  returncode :: int
  stdout :: string

record host =
  platform :: string
  programs :: "string list \<Rightarrow> error + completed_process"
  calls :: "string list list"
  dialogs :: "(string \<times> string) list"
  printed :: "string list"

definition subprocess_run :: "string list \<Rightarrow> host \<Rightarrow> (error + completed_process) \<times> host" where
  "subprocess_run argv h = (programs h argv, h\<lparr>calls := calls h @ [argv]\<rparr>)"

text \<open>App.get\_status (app.py, lines 319 to 325). The decoder is a parameter: the method
  returns whatever \<^verbatim>\<open>json.loads\<close> returns and raises whatever it raises.\<close>

definition get_status :: "(string \<Rightarrow> error + pyval) \<Rightarrow> host \<Rightarrow> (error + pyval) \<times> host" where
  "get_status loads h =
     (case subprocess_run [''urbackupclientctl'', ''status''] h of
        (Inl e, h') \<Rightarrow> (Inl e, h')
      | (Inr result, h') \<Rightarrow>
          if returncode result \<noteq> 0 then (Inr PNone, h')
          else (loads (stdout result), h'))"










section \<open>Well-formed snapshots\<close>

text \<open>
  A snapshot as the control utility documents it: a dict with a list of running
  processes, of which the first (the only one the panel reads) has an action of the
  table, an integer or null ETA and an integer percentage that fits a C \<^verbatim>\<open>int\<close>; an
  optional time of the last backup that the host's \<^verbatim>\<open>datetime.fromtimestamp\<close> converts
  without raising; a list of
  servers, each a dict with a name and an Internet flag; a connection status; and the
  integer time since the last connection. This is a hypothesis of the theorems about
  complete renders, not a part of the program.
\<close>

fun succeeds :: "error + 'a \<Rightarrow> bool" where
  "succeeds (Inr x) = True"
| "succeeds (Inl e) = False"

fun known_action :: "error + pyval \<Rightarrow> bool" where
  "known_action (Inr (PStr a)) = (map_of statuses a \<noteq> None)"
| "known_action _ = False"

fun int_or_null :: "error + pyval \<Rightarrow> bool" where
  "int_or_null (Inr (PInt e)) = True"
| "int_or_null (Inr PNone) = True"
| "int_or_null _ = False"

fun c_int :: "error + pyval \<Rightarrow> bool" where
  "c_int (Inr (PInt n)) = (- (2 ^ 31) \<le> n \<and> n < 2 ^ 31)"
| "c_int _ = False"

definition wf_process :: "pyval \<Rightarrow> bool" where
  "wf_process p =
     (known_action (py_getitem p ''action'') \<and> int_or_null (py_getitem p ''eta_ms'') \<and>
      c_int (py_getitem p ''percent_done''))"

definition wf_server :: "pyval \<Rightarrow> bool" where
  "wf_server s = (succeeds (py_getitem s ''name'') \<and> succeeds (py_getitem s ''internet_connection''))"

fun wf_running :: "error + pyval \<Rightarrow> bool" where
  "wf_running (Inr (PList [])) = True"
| "wf_running (Inr (PList (p # ps))) = wf_process p"
| "wf_running _ = False"

fun wf_servers :: "error + pyval \<Rightarrow> bool" where
  "wf_servers (Inr (PList ss)) = list_all wf_server ss"
| "wf_servers _ = False"

fun is_int :: "error + pyval \<Rightarrow> bool" where
  "is_int (Inr (PInt t)) = True"
| "is_int _ = False"

fun wf_last_backup :: "(pyval \<Rightarrow> error + datetime) \<Rightarrow> pyval option \<Rightarrow> bool" where
  "wf_last_backup fromtimestamp None = True"
| "wf_last_backup fromtimestamp (Some t) = succeeds (fromtimestamp t)"

fun well_formed :: "(pyval \<Rightarrow> error + datetime) \<Rightarrow> pyval \<Rightarrow> bool" where
  "well_formed fromtimestamp (PDict d) =
     (wf_running (py_getitem (PDict d) ''running_processes'') \<and>
      wf_last_backup fromtimestamp (map_of d ''last_backup_time'') \<and>
      wf_servers (py_getitem (PDict d) ''servers'') \<and>
      succeeds (py_getitem (PDict d) ''internet_status'') \<and>
      is_int (py_getitem (PDict d) ''time_since_last_lan_connection''))"
| "well_formed fromtimestamp _ = False"

text \<open>The icon as the specification words the choice: a function of whether the status
  is \<^verbatim>\<open>None\<close>, whether a process is running, and the connection status.\<close>

definition icon_choice :: "bool \<Rightarrow> bool \<Rightarrow> pyval \<Rightarrow> icon" where
  "icon_choice is_none has_running_process internet_status =
     (if is_none then not_connected
      else if has_running_process then busy
      else if internet_status = PStr ''connected_local'' then connected
      else not_connected)"

section \<open>A sample host and sample snapshots\<close>

text \<open>
  \<^verbatim>\<open>datetime.fromtimestamp\<close> as CPython 3 computes it on a Linux host whose time zone has
  the offset \<open>tz u\<close> from UTC, in seconds, at the instant \<open>u\<close>. The C library's
  \<^verbatim>\<open>localtime_r\<close> fails when the year does not fit the \<^verbatim>\<open>int\<close> field that holds it less 1900
  (\<^verbatim>\<open>OSError\<close>); the interpreter refuses a timestamp beyond the 64-bit \<^verbatim>\<open>time_t\<close>
  (\<^verbatim>\<open>OverflowError\<close>) and a year outside 1..9999 (\<^verbatim>\<open>ValueError\<close>). To find out whether the
  local time is the second of two equal readings of the clock, it also converts the
  instant one day earlier and, when the offset has gone down in that day, the instant
  earlier by that much; either conversion can raise as well.
\<close>

text \<open>The date of a day number (days since 1970-01-01) in the proleptic Gregorian
  calendar. Days are counted in eras of 400 years (146097 days) that begin on a first
  of March: \<open>doe\<close> is the day of the era, \<open>yoe\<close> the year of the era, \<open>doy\<close> the day of
  the year that began in March and \<open>mp\<close> its month, March being month 0.\<close>

definition date_of_month :: "int \<Rightarrow> int \<Rightarrow> int \<Rightarrow> int \<times> int \<times> int" where
  "date_of_month y doy mp =
     (if mp < 10 then (y, mp + 3, doy - (153 * mp + 2) div 5 + 1)
      else (y + 1, mp - 9, doy - (153 * mp + 2) div 5 + 1))"

definition date_of_doy :: "int \<Rightarrow> int \<Rightarrow> int \<times> int \<times> int" where
  "date_of_doy y doy = date_of_month y doy ((5 * doy + 2) div 153)"

definition date_of_yoe :: "int \<Rightarrow> int \<Rightarrow> int \<Rightarrow> int \<times> int \<times> int" where
  "date_of_yoe era doe yoe =
     date_of_doy (yoe + era * 400) (doe - (365 * yoe + yoe div 4 - yoe div 100))"

definition date_of_doe :: "int \<Rightarrow> int \<Rightarrow> int \<times> int \<times> int" where
  "date_of_doe era doe =
     date_of_yoe era doe ((doe - doe div 1460 + doe div 36524 - doe div 146096) div 365)"

definition civil_from_days :: "int \<Rightarrow> int \<times> int \<times> int" where
  "civil_from_days n = date_of_doe ((n + 719468) div 146097) ((n + 719468) mod 146097)"

definition year_of_seconds :: "int \<Rightarrow> int" where
  "year_of_seconds s = fst (civil_from_days (s div 86400))"

definition datetime_of :: "int \<Rightarrow> datetime" where
  "datetime_of s =
     (case civil_from_days (s div 86400) of
        (y, m, d) \<Rightarrow>
          \<lparr>year = y, month = m, day = d,
           hour = s mod 86400 div 3600, minute = s mod 3600 div 60, second = s mod 60\<rparr>)"

text \<open>One conversion: the local time of the instant \<open>u\<close>, as seconds since the epoch on
  the local clock.\<close>

definition local_seconds :: "(int \<Rightarrow> int) \<Rightarrow> int \<Rightarrow> error + int" where
  "local_seconds tz u =
     (if u < - (2 ^ 63) \<or> 2 ^ 63 \<le> u then Inl OverflowError
      else if year_of_seconds (u + tz u) < 1900 - 2 ^ 31 \<or>
              1900 + 2 ^ 31 \<le> year_of_seconds (u + tz u) then Inl OSError
      else if year_of_seconds (u + tz u) < 1 \<or> 9999 < year_of_seconds (u + tz u)
        then Inl ValueError
      else Inr (u + tz u))"

definition posix_localtime :: "(int \<Rightarrow> int) \<Rightarrow> int \<Rightarrow> error + datetime" where
  "posix_localtime tz t =
     err_bind (local_seconds tz t) (\<lambda>result.
     err_bind (local_seconds tz (t - 86400)) (\<lambda>probe.
       if result - probe - 86400 < 0 then
         err_bind (local_seconds tz (t + (result - probe - 86400)))
           (\<lambda>second_probe. Inr (datetime_of result))
       else Inr (datetime_of result)))"

fun posix_fromtimestamp :: "(int \<Rightarrow> int) \<Rightarrow> pyval \<Rightarrow> error + datetime" where
  "posix_fromtimestamp tz (PInt t) = posix_localtime tz t"
| "posix_fromtimestamp tz (PBool b) = posix_localtime tz (if b then 1 else 0)"
| "posix_fromtimestamp tz _ = Inl TypeError"

text \<open>The conversion of a host on UTC, and snapshots for the concrete instances of the
  theorems below: the idle snapshot of the specification's scenario, a full backup at 42
  percent with an ETA of 7260000 ms, an incremental backup in its indexing phase, a
  process without the \<^verbatim>\<open>eta_ms\<close> key, and a process with an action that the table does
  not have.\<close>

definition utc :: "pyval \<Rightarrow> error + datetime" where
  "utc = posix_fromtimestamp (\<lambda>u. 0)"

definition snapshot_idle :: pyval where
  "snapshot_idle = PDict
     [(''running_processes'', PList []),
      (''servers'', PList [PDict [(''name'', PStr ''srv1''), (''internet_connection'', PBool True)]]),
      (''internet_status'', PStr ''connected_local''),
      (''time_since_last_lan_connection'', PInt 120000)]"

definition snapshot_full :: pyval where
  "snapshot_full = PDict
     [(''running_processes'',
         PList [PDict [(''action'', PStr ''FULL''), (''eta_ms'', PInt 7260000),
                       (''percent_done'', PInt 42)]]),
      (''last_backup_time'', PInt 1700000000),
      (''servers'', PList []),
      (''internet_status'', PStr ''wait_local''),
      (''time_since_last_lan_connection'', PInt 0)]"

definition snapshot_indexing :: pyval where
  "snapshot_indexing = PDict
     [(''running_processes'',
         PList [PDict [(''action'', PStr ''INCR''), (''eta_ms'', PInt (- 1)),
                       (''percent_done'', PInt (- 1))]]),
      (''servers'', PList []),
      (''internet_status'', PStr ''no_server''),
      (''time_since_last_lan_connection'', PInt 59999)]"

definition snapshot_no_eta :: pyval where
  "snapshot_no_eta = PDict
     [(''running_processes'',
         PList [PDict [(''action'', PStr ''FULL''), (''percent_done'', PInt 43)]]),
      (''servers'', PList []),
      (''internet_status'', PStr ''wait_local''),
      (''time_since_last_lan_connection'', PInt 0)]"

definition snapshot_restore :: pyval where
  "snapshot_restore = PDict
     [(''running_processes'',
         PList [PDict [(''action'', PStr ''RESTORE''), (''eta_ms'', PInt 1000),
                       (''percent_done'', PInt 10)]]),
      (''servers'', PList []),
      (''internet_status'', PStr ''connected_local''),
      (''time_since_last_lan_connection'', PInt 0)]"

text \<open>A host with one control utility installed under the name \<open>tool\<close>, which exits with
  \<open>rc\<close> and prints \<open>out\<close>; every other program is missing.\<close>

definition host_running :: "string \<Rightarrow> string \<Rightarrow> int \<Rightarrow> string \<Rightarrow> host" where
  "host_running pf tool rc out =
     \<lparr>platform = pf,
      programs = (\<lambda>argv. if argv = [tool, ''status'']
                          then Inr \<lparr>returncode = rc, stdout = out\<rparr>
                          else Inl FileNotFoundError),
      calls = [], dialogs = [], printed = []\<rparr>"

section \<open>Lemmas about the sections of StatusInfo.update\_status\<close>

lemma py_eq_str_iff: "py_eq_str v s = (v = PStr s)"
  by (cases v) auto

lemma show_current_idle:
  assumes "py_getitem status ''running_processes'' = Inr (PList [])"
  shows "show_current status w =
           Done (w\<lparr>status_text := ''Idle. '', eta_text := [], progress_bar := 0\<rparr>)"
  using assms
  by (simp add: show_current_def read_process_def statuses_def status_format_def eta_line_def)

lemma eta_line_int:
  "eta_line (PInt e) =
     Inr (if e = - 1 then []
          else ''ETA: '' @ str_int (e div 3600000) @ '' hours '' @ str_int (e div 60000) @ '' minutes'')"
  by (simp add: eta_line_def eta_format_def)

lemma eta_line_none: "eta_line PNone = Inr []"
  by (simp add: eta_line_def)

lemma wf_processE:
  assumes "wf_process p"
  obtains a label eta pc where
    "py_getitem p ''action'' = Inr (PStr a)" "map_of statuses a = Some label"
    "py_getitem p ''eta_ms'' = Inr eta" "eta = PNone \<or> (\<exists>e. eta = PInt e)"
    "py_getitem p ''percent_done'' = Inr (PInt pc)" "- (2 ^ 31) \<le> pc" "pc < 2 ^ 31"
proof -
  from assms have k: "known_action (py_getitem p ''action'')"
    and e: "int_or_null (py_getitem p ''eta_ms'')"
    and c: "c_int (py_getitem p ''percent_done'')"
    by (simp_all add: wf_process_def)
  from k obtain a label where "py_getitem p ''action'' = Inr (PStr a)" "map_of statuses a = Some label"
    by (rule known_action.elims(2)) auto
  moreover from e obtain eta where "py_getitem p ''eta_ms'' = Inr eta" "eta = PNone \<or> (\<exists>e. eta = PInt e)"
    by (rule int_or_null.elims(2)) auto
  moreover from c obtain pc where "py_getitem p ''percent_done'' = Inr (PInt pc)"
    "- (2 ^ 31) \<le> pc" "pc < 2 ^ 31"
    by (rule c_int.elims(2)) auto
  ultimately show thesis by (rule that)
qed


lemma show_current_running:
  assumes rp: "py_getitem status ''running_processes'' = Inr (PList (p # ps))"
    and p: "py_getitem p ''action'' = Inr (PStr a)" "map_of statuses a = Some label"
       "py_getitem p ''eta_ms'' = Inr eta" "eta_line eta = Inr t"
       "py_getitem p ''percent_done'' = Inr (PInt pc)" "- (2 ^ 31) \<le> pc" "pc < 2 ^ 31"
  shows "show_current status w =
           Done (w\<lparr>status_text :=
                      label @ '' '' @ (if pc = - 1 then ''Indexing.'' else str_int pc @ ''% done.''),
                   eta_text := t,
                   progress_bar :=
                      (if pc = - 1 then 0 else if 0 \<le> pc \<and> pc \<le> 100 then pc
                       else progress_bar w)\<rparr>)"
proof -
  have r: "read_process status =
             Inr (PStr a, if pc = - 1 then ''Indexing.'' else str_int pc @ ''% done.'',
                  if pc = - 1 then PInt 0 else PInt pc, eta)"
    using rp p(1,3,5) by (simp add: read_process_def)
  show ?thesis
  proof (cases "pc = - 1")
    case True
    with r p(2,4) show ?thesis
      by (simp add: show_current_def status_format_def Let_def)
  next
    case False
    with r p(2,4,6,7) show ?thesis
      by (simp add: show_current_def status_format_def Let_def)
  qed
qed


lemma show_last_backup_frame:
  assumes "show_last_backup fromtimestamp d w = Done w'"
  shows "status_text w' = status_text w \<and> eta_text w' = eta_text w \<and>
         progress_bar w' = progress_bar w \<and> servers w' = servers w \<and>
         connect_status w' = connect_status w"
  using assms by (auto simp: show_last_backup_def split: option.splits sum.splits)

lemma add_servers_frame:
  "add_servers items w = Done w' \<Longrightarrow>
     status_text w' = status_text w \<and> eta_text w' = eta_text w \<and>
     progress_bar w' = progress_bar w \<and> last_backup w' = last_backup w \<and>
     connect_status w' = connect_status w"
proof (induction items arbitrary: w)
  case Nil
  then show ?case by simp
next
  case (Cons server rest)
  from Cons.prems obtain line where
    "add_servers rest (w\<lparr>servers := servers w @ [line]\<rparr>) = Done w'"
    by (cases "server_line server") auto
  from Cons.IH [OF this] show ?case by simp
qed

lemma add_servers_done:
  "list_all wf_server items \<Longrightarrow> \<exists>w'. add_servers items w = Done w'"
proof (induction items arbitrary: w)
  case Nil
  then show ?case by simp
next
  case (Cons server rest)
  then have "succeeds (py_getitem server ''name'')"
    "succeeds (py_getitem server ''internet_connection'')"
    by (simp_all add: wf_server_def)
  then obtain n i where "py_getitem server ''name'' = Inr n"
    "py_getitem server ''internet_connection'' = Inr i"
    by (meson succeeds.elims(2))
  then obtain line where "server_line server = Inr line"
    by (simp add: server_line_def)
  with Cons show ?case by simp
qed

lemma show_connection_done:
  assumes "py_getitem status ''internet_status'' = Inr i"
    and "py_getitem status ''time_since_last_lan_connection'' = Inr (PInt t)"
  shows "show_connection status w =
           Done (w\<lparr>connect_status :=
             (if i = PStr ''wait_local'' then ''Waiting for local UrBackup server.''
              else if i = PStr ''no_server'' then ''No servers''
              else (if i = PStr ''connected_local'' then ''Connected to local UrBackup server.''
                    else ''Not connected to local UrBackup server.'')
                   @ [CHR 0x0A] @ ''Local server last seen '' @ str_int (t div 60000) @ '' minutes ago.'')\<rparr>)"
  using assms
  by (simp add: show_connection_def py_eq_str_iff connect_to_local_format_def last_seen_format_def)


lemma setValue_frame:
  "setValue v w = Done w' \<Longrightarrow>
     status_text w' = status_text w \<and> eta_text w' = eta_text w \<and>
     last_backup w' = last_backup w \<and> servers w' = servers w \<and>
     connect_status w' = connect_status w"
  by (cases v) (auto split: if_splits)

lemma show_current_frame:
  assumes "show_current status w = Done w'"
  shows "last_backup w' = last_backup w \<and> servers w' = servers w \<and>
         connect_status w' = connect_status w"
proof -
  from assms obtain percent w1 where "setValue percent w1 = Done w'"
    "last_backup w1 = last_backup w" "servers w1 = servers w"
    "connect_status w1 = connect_status w"
    by (auto simp: show_current_def Let_def split: sum.splits prod.splits)
  with setValue_frame [of percent w1 w'] show ?thesis by simp
qed

lemma show_servers_frame:
  assumes "show_servers status w = Done w'"
  shows "status_text w' = status_text w \<and> eta_text w' = eta_text w \<and>
         progress_bar w' = progress_bar w \<and> last_backup w' = last_backup w \<and>
         connect_status w' = connect_status w"
proof -
  from assms obtain items where "add_servers items (w\<lparr>servers := []\<rparr>) = Done w'"
    by (auto simp: show_servers_def Let_def split: sum.splits)
  from add_servers_frame [OF this] show ?thesis by simp
qed

lemma well_formed_render:
  assumes "well_formed fromtimestamp status"
  obtains d i t w1 w2 w3 w' where
    "status = PDict d"
    "py_getitem status ''internet_status'' = Inr i"
    "py_getitem status ''time_since_last_lan_connection'' = Inr (PInt t)"
    "show_current status w = Done w1"
    "show_last_backup fromtimestamp d w1 = Done w2"
    "show_servers status w2 = Done w3"
    "show_connection status w3 = Done w'"
    "update_status fromtimestamp status w = Done w'"
proof -
  from assms obtain d where d: "status = PDict d"
    by (cases status) auto
  from assms d have run: "wf_running (py_getitem status ''running_processes'')"
    and lb: "wf_last_backup fromtimestamp (map_of d ''last_backup_time'')"
    and sv: "wf_servers (py_getitem status ''servers'')"
    and ist: "succeeds (py_getitem status ''internet_status'')"
    and tm: "is_int (py_getitem status ''time_since_last_lan_connection'')"
    by simp_all
  from ist obtain i where i: "py_getitem status ''internet_status'' = Inr i"
    by (meson succeeds.elims(2))
  from tm obtain t where t: "py_getitem status ''time_since_last_lan_connection'' = Inr (PInt t)"
    by (rule is_int.elims(2)) auto
  from sv obtain ss where ss: "py_getitem status ''servers'' = Inr (PList ss)"
    "list_all wf_server ss"
    by (rule wf_servers.elims(2)) auto
  have "\<exists>w1. show_current status w = Done w1"
    using run
  proof (rule wf_running.elims(2))
    assume "py_getitem status ''running_processes'' = Inr (PList [])"
    then show ?thesis by (simp add: show_current_idle)
  next
    fix p ps
    assume rp: "py_getitem status ''running_processes'' = Inr (PList (p # ps))"
      and "wf_process p"
    from this(2) obtain a label eta pc where p:
      "py_getitem p ''action'' = Inr (PStr a)" "map_of statuses a = Some label"
      "py_getitem p ''eta_ms'' = Inr eta" "eta = PNone \<or> (\<exists>e. eta = PInt e)"
      "py_getitem p ''percent_done'' = Inr (PInt pc)" "- (2 ^ 31) \<le> pc" "pc < 2 ^ 31"
      by (rule wf_processE)
    from p(4) obtain tx where "eta_line eta = Inr tx"
      by (auto simp: eta_line_int eta_line_none)
    from show_current_running [OF rp p(1,2,3) this p(5,6,7)] show ?thesis by blast
  qed
  then obtain w1 where w1: "show_current status w = Done w1" ..
  have "\<exists>w2. show_last_backup fromtimestamp d w1 = Done w2"
  proof (cases "map_of d ''last_backup_time''")
    case None
    then show ?thesis by (simp add: show_last_backup_def)
  next
    case (Some v)
    with lb obtain dt where "fromtimestamp v = Inr dt"
      by (auto elim: succeeds.elims(2))
    with Some show ?thesis by (simp add: show_last_backup_def)
  qed
  then obtain w2 where w2: "show_last_backup fromtimestamp d w1 = Done w2" ..
  from add_servers_done [OF ss(2)] obtain w3 where
    "add_servers ss (w2\<lparr>servers := []\<rparr>) = Done w3" by blast
  with ss(1) have w3: "show_servers status w2 = Done w3"
    by (simp add: show_servers_def)
  from show_connection_done [OF i t] obtain w' where w': "show_connection status w3 = Done w'"
    by blast
  from d w1 w2 w3 w' have "update_status fromtimestamp status w = Done w'"
    by (simp add: update_status_def)
  with d i t w1 w2 w3 w' show thesis by (rule that)
qed

lemma render_current:
  assumes "well_formed fromtimestamp status"
  shows "\<exists>w1 w'. show_current status w = Done w1 \<and> update_status fromtimestamp status w = Done w' \<and>
           status_text w' = status_text w1 \<and> eta_text w' = eta_text w1 \<and>
           progress_bar w' = progress_bar w1"
proof -
  from assms obtain d i t w1 w2 w3 w' where r:
    "py_getitem status ''internet_status'' = Inr i"
    "py_getitem status ''time_since_last_lan_connection'' = Inr (PInt t)"
    "show_current status w = Done w1"
    "show_last_backup fromtimestamp d w1 = Done w2"
    "show_servers status w2 = Done w3"
    "show_connection status w3 = Done w'"
    "update_status fromtimestamp status w = Done w'"
    by (rule well_formed_render)
  from r(6) show_connection_done [OF r(1,2), of w3]
  have "status_text w' = status_text w3 \<and> eta_text w' = eta_text w3 \<and>
        progress_bar w' = progress_bar w3" by auto
  with show_servers_frame [OF r(5)] show_last_backup_frame [OF r(4)] r(3,7)
  show ?thesis by auto
qed

lemma render_connection:
  assumes "well_formed fromtimestamp status"
    and "py_getitem status ''internet_status'' = Inr i"
    and "py_getitem status ''time_since_last_lan_connection'' = Inr (PInt t)"
  shows "\<exists>w3. update_status fromtimestamp status w = show_connection status w3"
proof -
  from assms(1) obtain w3 w' where "show_connection status w3 = Done w'"
    "update_status fromtimestamp status w = Done w'"
    by (rule well_formed_render)
  then show ?thesis by metis
qed

lemma render_last_backup:
  assumes "well_formed fromtimestamp (PDict d)"
  shows "\<exists>w1 w2 w'. show_last_backup fromtimestamp d w1 = Done w2 \<and> last_backup w1 = last_backup w \<and>
           update_status fromtimestamp (PDict d) w = Done w' \<and> last_backup w' = last_backup w2"
proof -
  from assms obtain d' i t w1 w2 w3 w' where r:
    "PDict d = PDict d'"
    "py_getitem (PDict d) ''internet_status'' = Inr i"
    "py_getitem (PDict d) ''time_since_last_lan_connection'' = Inr (PInt t)"
    "show_current (PDict d) w = Done w1"
    "show_last_backup fromtimestamp d' w1 = Done w2"
    "show_servers (PDict d) w2 = Done w3"
    "show_connection (PDict d) w3 = Done w'"
    "update_status fromtimestamp (PDict d) w = Done w'"
    by (rule well_formed_render)
  from r(7) show_connection_done [OF r(2,3), of w3]
  have "last_backup w' = last_backup w3" by auto
  with show_servers_frame [OF r(6)] show_current_frame [OF r(4)] r(1,5,8)
  show ?thesis by auto
qed

text \<open>A snapshot without the key \<^verbatim>\<open>last_backup_time\<close> leaves the label of the last backup
  as it was before the render.\<close>

lemma last_backup_kept:
  assumes "well_formed fromtimestamp (PDict d)" and "map_of d ''last_backup_time'' = None"
  shows "\<exists>w'. update_status fromtimestamp (PDict d) w = Done w' \<and> last_backup w' = last_backup w"
proof -
  from render_last_backup [OF assms(1), of w] obtain w1 w2 w' where r:
    "show_last_backup fromtimestamp d w1 = Done w2" "last_backup w1 = last_backup w"
    "update_status fromtimestamp (PDict d) w = Done w'" "last_backup w' = last_backup w2"
    by blast
  from r(1) assms(2) have "w2 = w1" by (simp add: show_last_backup_def)
  with r show ?thesis by simp
qed

section \<open>Evaluation of the sample inputs\<close>

lemma civil_19675: "civil_from_days 19675 = (2023, 11, 14)"
  by (simp add: civil_from_days_def date_of_doe_def date_of_yoe_def date_of_doy_def
        date_of_month_def)

lemma civil_19674: "civil_from_days 19674 = (2023, 11, 13)"
  by (simp add: civil_from_days_def date_of_doe_def date_of_yoe_def date_of_doy_def
        date_of_month_def)

lemma local_seconds_1700000000: "local_seconds (\<lambda>u. 0) 1700000000 = Inr 1700000000"
  by (simp add: local_seconds_def year_of_seconds_def civil_19675)

lemma local_seconds_1699913600: "local_seconds (\<lambda>u. 0) 1699913600 = Inr 1699913600"
  by (simp add: local_seconds_def year_of_seconds_def civil_19674)

lemma datetime_of_1700000000:
  "datetime_of 1700000000 =
     \<lparr>year = 2023, month = 11, day = 14, hour = 22, minute = 13, second = 20\<rparr>"
  by (simp add: datetime_of_def civil_19675)

lemma utc_1700000000:
  "utc (PInt 1700000000) =
     Inr \<lparr>year = 2023, month = 11, day = 14, hour = 22, minute = 13, second = 20\<rparr>"
  by (simp add: utc_def posix_localtime_def local_seconds_1700000000 local_seconds_1699913600
        datetime_of_1700000000)

lemma strftime_1700000000:
  "strftime \<lparr>year = 2023, month = 11, day = 14, hour = 22, minute = 13, second = 20\<rparr> =
     ''11/14/2023 10:13:20 PM''"
  by (simp add: strftime_def pad2_def str_int_def str_nat.simps digit_char_def)

lemmas render_defs =
  update_status_def show_current_def read_process_def statuses_def status_format_def
  eta_line_def eta_format_def show_last_backup_def show_servers_def server_line_def
  show_connection_def connect_to_local_format_def last_seen_format_def
  str_int_def str_nat.simps digit_char_def last_backup_format_def

lemma wf_idle: "well_formed utc snapshot_idle"
  by (simp add: snapshot_idle_def wf_server_def)

lemma wf_full: "well_formed utc snapshot_full"
  by (simp add: snapshot_full_def wf_process_def statuses_def utc_1700000000)

lemma wf_indexing: "well_formed utc snapshot_indexing"
  by (simp add: snapshot_indexing_def wf_process_def statuses_def)

lemma eval_full:
  "update_status utc snapshot_full status_info_init =
     Done \<lparr>status_text = ''Full file backup running. 42% done.'',
           eta_text = ''ETA: 2 hours 121 minutes'', progress_bar = 42,
           last_backup = ''Last backup on 11/14/2023 10:13:20 PM'', servers = [],
           connect_status = ''Waiting for local UrBackup server.''\<rparr>"
  by (simp add: snapshot_full_def status_info_init_def render_defs
        utc_1700000000 strftime_1700000000)

lemmas decode_defs =
  json_loads_def decode.simps is_ws_def startswith_def

lemma loads_null: "json_loads ''null'' = Inr PNone"
  by (simp add: decode_defs)

lemma loads_empty_object: "json_loads ''{}'' = Inr (PDict [])"
  by (simp add: decode_defs)

lemma loads_open_brace: "json_loads ''{'' = Inl JSONDecodeError"
  by (simp add: decode_defs)

section \<open>Properties of the specification\<close>

text \<open>
  C1. For every input of the icon presenter, \<^verbatim>\<open>None\<close> or a snapshot that has a connection
  status and a collection of running processes, the icon is chosen in this order:
  \<^verbatim>\<open>None\<close> gives the "not connected" icon; otherwise a non-empty collection of running
  processes gives the "busy" icon; otherwise the connection status \<^verbatim>\<open>connected_local\<close>
  gives the "connected" icon; otherwise the "not connected" icon. The tray and the window
  get the same icon, which depends on nothing but the three inputs of
  \<^const>\<open>icon_choice\<close>.
\<close>

theorem update_tray_icon_choice:
  assumes "status = PNone \<or>
           (py_getitem status ''internet_status'' = Inr internet_status \<and>
            py_getitem status ''running_processes'' = Inr running \<and>
            py_len running = Inr n)"
  shows "update_tray status a =
           Done (a\<lparr>tray_icon := icon_choice (status = PNone) (n > 0) internet_status,
                   window_icon := icon_choice (status = PNone) (n > 0) internet_status\<rparr>)"
  using assms
proof
  assume "status = PNone"
  then show ?thesis by (simp add: update_tray_def icon_choice_def)
next
  assume h: "py_getitem status ''internet_status'' = Inr internet_status \<and>
            py_getitem status ''running_processes'' = Inr running \<and>
            py_len running = Inr n"
  then have "status \<noteq> PNone" by auto
  with h show ?thesis
    by (simp add: update_tray_def icon_choice_def py_eq_str_iff)
qed

theorem update_tray_icon_choice_witness:
  "update_tray
     (PDict [(''running_processes'', PList []), (''internet_status'', PStr ''connected_local'')])
     \<lparr>tray_icon = not_connected, window_icon = not_connected\<rparr>
   = Done \<lparr>tray_icon = connected, window_icon = connected\<rparr>
   \<and> update_tray
     (PDict [(''running_processes'', PList [PDict []]), (''internet_status'', PStr ''connected_local'')])
     \<lparr>tray_icon = not_connected, window_icon = not_connected\<rparr>
   = Done \<lparr>tray_icon = busy, window_icon = busy\<rparr>
   \<and> update_tray PNone \<lparr>tray_icon = busy, window_icon = busy\<rparr>
   = Done \<lparr>tray_icon = not_connected, window_icon = not_connected\<rparr>"
  using update_tray_icon_choice
          [of "PDict [(''running_processes'', PList []), (''internet_status'', PStr ''connected_local'')]"
              "PStr ''connected_local''" "PList []" 0
              "\<lparr>tray_icon = not_connected, window_icon = not_connected\<rparr>"]
        update_tray_icon_choice
          [of "PDict [(''running_processes'', PList [PDict []]), (''internet_status'', PStr ''connected_local'')]"
              "PStr ''connected_local''" "PList [PDict []]" 1
              "\<lparr>tray_icon = not_connected, window_icon = not_connected\<rparr>"]
        update_tray_icon_choice [of PNone PNone PNone 0 "\<lparr>tray_icon = busy, window_icon = busy\<rparr>"]
  by (simp add: icon_choice_def)

text \<open>
  C2, as the code has it. For every well-formed snapshot whose first running process has
  an integer \<^verbatim>\<open>eta_ms\<close> other than \<open>-1\<close>, the ETA text is "ETA: H hours M minutes" with
  \<open>H = eta_ms div 3600000\<close> and \<open>M = eta_ms div 60000\<close>, the minutes being taken from the
  whole duration and not from what the hours leave. When \<^verbatim>\<open>eta_ms\<close> is \<open>-1\<close> or null, or
  when no process is running, the ETA text is empty. A well-formed first process has the
  key: without it the lookup of line 138 raises, which the instance after the theorem
  shows.
\<close>

theorem eta_text_rendered:
  assumes "well_formed fromtimestamp status"
  shows "\<exists>w'. update_status fromtimestamp status w = Done w' \<and>
           (py_getitem status ''running_processes'' = Inr (PList []) \<longrightarrow> eta_text w' = []) \<and>
           (py_getitem status ''running_processes'' = Inr (PList (p # ps)) \<longrightarrow>
              (py_getitem p ''eta_ms'' = Inr PNone \<longrightarrow> eta_text w' = []) \<and>
              (py_getitem p ''eta_ms'' = Inr (PInt eta) \<longrightarrow>
                 eta_text w' =
                   (if eta = - 1 then []
                    else ''ETA: '' @ str_int (eta div 3600000) @ '' hours '' @
                         str_int (eta div 60000) @ '' minutes'')))"
proof -
  from render_current [OF assms, of w] obtain w1 w' where r:
    "show_current status w = Done w1" "update_status fromtimestamp status w = Done w'"
    "eta_text w' = eta_text w1" by blast
  have idle: "eta_text w' = []"
    if "py_getitem status ''running_processes'' = Inr (PList [])"
    using that r by (auto simp: show_current_idle)
  have running: "eta_line e = Inr (eta_text w')"
    if rp: "py_getitem status ''running_processes'' = Inr (PList (p # ps))"
      and e: "py_getitem p ''eta_ms'' = Inr e"
    for e
  proof -
    from assms have "wf_running (py_getitem status ''running_processes'')"
      by (cases status) auto
    with rp have "wf_process p" by simp
    then obtain a label e' pc where p:
      "py_getitem p ''action'' = Inr (PStr a)" "map_of statuses a = Some label"
      "py_getitem p ''eta_ms'' = Inr e'" "e' = PNone \<or> (\<exists>n. e' = PInt n)"
      "py_getitem p ''percent_done'' = Inr (PInt pc)" "- (2 ^ 31) \<le> pc" "pc < 2 ^ 31"
      by (rule wf_processE)
    from p(4) obtain t where t: "eta_line e' = Inr t"
      by (auto simp: eta_line_int eta_line_none)
    from show_current_running [OF rp p(1,2,3) t p(5,6,7), of w] r
    have "eta_text w' = t" by auto
    with t e p(3) show ?thesis by simp
  qed
  from r(2) idle running [of PNone] running [of "PInt eta"] show ?thesis
    by (auto simp: eta_line_int eta_line_none)
qed

theorem eta_text_rendered_witness:
  "(\<exists>w'. update_status utc snapshot_full status_info_init = Done w' \<and>
          eta_text w' = ''ETA: 2 hours 121 minutes'') \<and>
   (\<exists>w'. update_status utc snapshot_indexing status_info_init = Done w' \<and> eta_text w' = []) \<and>
   (\<exists>w'. update_status utc snapshot_idle status_info_init = Done w' \<and> eta_text w' = [])"
proof (intro conjI)
  from eta_text_rendered [OF wf_full, of status_info_init
      "PDict [(''action'', PStr ''FULL''), (''eta_ms'', PInt 7260000), (''percent_done'', PInt 42)]"
      "[]" 7260000]
  show "\<exists>w'. update_status utc snapshot_full status_info_init = Done w' \<and>
          eta_text w' = ''ETA: 2 hours 121 minutes''"
    by (simp add: snapshot_full_def str_int_def str_nat.simps digit_char_def)
next
  from eta_text_rendered [OF wf_indexing, of status_info_init
      "PDict [(''action'', PStr ''INCR''), (''eta_ms'', PInt (- 1)), (''percent_done'', PInt (- 1))]"
      "[]" "- 1"]
  show "\<exists>w'. update_status utc snapshot_indexing status_info_init = Done w' \<and> eta_text w' = []"
    by (simp add: snapshot_indexing_def)
next
  from eta_text_rendered [OF wf_idle, of status_info_init]
  show "\<exists>w'. update_status utc snapshot_idle status_info_init = Done w' \<and> eta_text w' = []"
    by (simp add: snapshot_idle_def)
qed

text \<open>
  C2 as stated fails where \<^verbatim>\<open>eta_ms\<close> is absent from the first running process. After
  the render of \<^const>\<open>snapshot_full\<close> the ETA label reads "ETA: 2 hours 121 minutes";
  the render of \<^const>\<open>snapshot_no_eta\<close> then raises \<^verbatim>\<open>KeyError\<close> before any widget is
  touched, so the label still shows that text and not the empty string.
\<close>

theorem eta_key_absent_counterexample:
  "update_status utc snapshot_full status_info_init =
     Done \<lparr>status_text = ''Full file backup running. 42% done.'',
           eta_text = ''ETA: 2 hours 121 minutes'', progress_bar = 42,
           last_backup = ''Last backup on 11/14/2023 10:13:20 PM'', servers = [],
           connect_status = ''Waiting for local UrBackup server.''\<rparr> \<and>
   update_status utc snapshot_no_eta
     \<lparr>status_text = ''Full file backup running. 42% done.'',
      eta_text = ''ETA: 2 hours 121 minutes'', progress_bar = 42,
      last_backup = ''Last backup on 11/14/2023 10:13:20 PM'', servers = [],
      connect_status = ''Waiting for local UrBackup server.''\<rparr> =
     Raised (KeyError (PStr ''eta_ms''))
       \<lparr>status_text = ''Full file backup running. 42% done.'',
        eta_text = ''ETA: 2 hours 121 minutes'', progress_bar = 42,
        last_backup = ''Last backup on 11/14/2023 10:13:20 PM'', servers = [],
        connect_status = ''Waiting for local UrBackup server.''\<rparr>"
  by (simp add: eval_full) (simp add: snapshot_no_eta_def update_status_def show_current_def
        read_process_def)

text \<open>
  C3, as the code has it. When the control utility ran and exited with a nonzero return
  code the poller returns \<^verbatim>\<open>None\<close>. When it exited with zero the poller returns what the
  decoder makes of its output, and an error of the decoder leaves the poller as it is.
  So \<^verbatim>\<open>None\<close> is returned exactly when the return code is nonzero or the decoded value
  is itself \<^verbatim>\<open>None\<close>.
\<close>

theorem get_status_result:
  assumes "programs h [''urbackupclientctl'', ''status''] = Inr r"
  shows "(returncode r \<noteq> 0 \<longrightarrow> fst (get_status loads h) = Inr PNone) \<and>
         (returncode r = 0 \<longrightarrow> fst (get_status loads h) = loads (stdout r)) \<and>
         (returncode r = 0 \<longrightarrow> loads (stdout r) = Inl e \<longrightarrow> fst (get_status loads h) = Inl e) \<and>
         (fst (get_status loads h) = Inr PNone \<longleftrightarrow>
            returncode r \<noteq> 0 \<or> loads (stdout r) = Inr PNone)"
  using assms by (auto simp: get_status_def subprocess_run_def)

theorem get_status_result_witness:
  "fst (get_status json_loads (host_running ''linux'' ''urbackupclientctl'' 1 ''{}'')) = Inr PNone \<and>
   fst (get_status json_loads (host_running ''linux'' ''urbackupclientctl'' 0 ''{}'')) =
     Inr (PDict []) \<and>
   fst (get_status json_loads (host_running ''linux'' ''urbackupclientctl'' 0 ''{'')) =
     Inl JSONDecodeError"
proof (intro conjI)
  have "programs (host_running ''linux'' ''urbackupclientctl'' 1 ''{}'')
          [''urbackupclientctl'', ''status''] = Inr \<lparr>returncode = 1, stdout = ''{}''\<rparr>"
    by (simp add: host_running_def)
  from get_status_result [OF this, of json_loads]
  show "fst (get_status json_loads (host_running ''linux'' ''urbackupclientctl'' 1 ''{}'')) =
          Inr PNone"
    by simp
next
  have "programs (host_running ''linux'' ''urbackupclientctl'' 0 ''{}'')
          [''urbackupclientctl'', ''status''] = Inr \<lparr>returncode = 0, stdout = ''{}''\<rparr>"
    by (simp add: host_running_def)
  from get_status_result [OF this, of json_loads]
  show "fst (get_status json_loads (host_running ''linux'' ''urbackupclientctl'' 0 ''{}'')) =
          Inr (PDict [])"
    by (simp add: loads_empty_object)
next
  have "programs (host_running ''linux'' ''urbackupclientctl'' 0 ''{'')
          [''urbackupclientctl'', ''status''] = Inr \<lparr>returncode = 0, stdout = ''{''\<rparr>"
    by (simp add: host_running_def)
  from get_status_result [OF this, of json_loads JSONDecodeError]
  show "fst (get_status json_loads (host_running ''linux'' ''urbackupclientctl'' 0 ''{'')) =
          Inl JSONDecodeError"
    by (simp add: loads_open_brace)
qed

text \<open>
  C3 as stated fails in its "exactly when": a utility that exits with zero and prints the
  JSON literal \<^verbatim>\<open>null\<close> makes the poller return \<^verbatim>\<open>None\<close>.
\<close>

theorem get_status_null_counterexample:
  "returncode \<lparr>returncode = 0, stdout = ''null''\<rparr> = 0 \<and>
   programs (host_running ''linux'' ''urbackupclientctl'' 0 ''null'')
     [''urbackupclientctl'', ''status''] = Inr \<lparr>returncode = 0, stdout = ''null''\<rparr> \<and>
   fst (get_status json_loads (host_running ''linux'' ''urbackupclientctl'' 0 ''null'')) = Inr PNone"
  by (simp add: get_status_def subprocess_run_def host_running_def loads_null)

text \<open>
  C4. On \<^verbatim>\<open>None\<close> neither presenter raises. The panel shows "Could not get status!", an
  empty ETA, the progress value 0, no server and the connection text "Unknown"; the
  tray and the window get the "not connected" icon.
\<close>

theorem none_renders_unknown_state:
  "\<exists>w' a'. update_status fromtimestamp PNone w = Done w' \<and>
       status_text w' = ''Could not get status!'' \<and> eta_text w' = [] \<and>
       progress_bar w' = 0 \<and> servers w' = [] \<and> connect_status w' = ''Unknown'' \<and>
       update_tray PNone a = Done a' \<and>
       tray_icon a' = not_connected \<and> window_icon a' = not_connected"
  by (simp add: update_status_def update_tray_def)

text \<open>
  C5. For every well-formed snapshot the render completes. With no running process the
  progress bar is at 0 and the progress part of the status text is empty. When the first
  running process has \<^verbatim>\<open>percent_done\<close> equal to \<open>-1\<close>, the bar is at 0 and the progress
  text is "Indexing."; when it is between 0 and 100, the bar is at that value and the
  progress text is the value followed by "% done.".
\<close>

theorem progress_rendered:
  assumes "well_formed fromtimestamp status"
  shows "\<exists>w'. update_status fromtimestamp status w = Done w' \<and>
           (py_getitem status ''running_processes'' = Inr (PList []) \<longrightarrow>
              progress_bar w' = 0 \<and> status_text w' = ''Idle.'' @ '' '' @ []) \<and>
           (py_getitem status ''running_processes'' = Inr (PList (p # ps)) \<longrightarrow>
            py_getitem p ''action'' = Inr (PStr a) \<longrightarrow> map_of statuses a = Some label \<longrightarrow>
            py_getitem p ''percent_done'' = Inr (PInt pc) \<longrightarrow>
              (pc = - 1 \<longrightarrow>
                 progress_bar w' = 0 \<and> status_text w' = label @ '' '' @ ''Indexing.'') \<and>
              (0 \<le> pc \<and> pc \<le> 100 \<longrightarrow>
                 progress_bar w' = pc \<and>
                 status_text w' = label @ '' '' @ str_int pc @ ''% done.''))"
proof -
  from render_current [OF assms, of w] obtain w1 w' where r:
    "show_current status w = Done w1" "update_status fromtimestamp status w = Done w'"
    "status_text w' = status_text w1" "progress_bar w' = progress_bar w1" by blast
  have idle: "progress_bar w' = 0 \<and> status_text w' = ''Idle.'' @ '' '' @ []"
    if "py_getitem status ''running_processes'' = Inr (PList [])"
    using that r by (auto simp: show_current_idle)
  have running:
    "(pc = - 1 \<longrightarrow> progress_bar w' = 0 \<and> status_text w' = label @ '' '' @ ''Indexing.'') \<and>
     (0 \<le> pc \<and> pc \<le> 100 \<longrightarrow>
        progress_bar w' = pc \<and> status_text w' = label @ '' '' @ str_int pc @ ''% done.'')"
    if rp: "py_getitem status ''running_processes'' = Inr (PList (p # ps))"
      and a: "py_getitem p ''action'' = Inr (PStr a)" "map_of statuses a = Some label"
      and pc: "py_getitem p ''percent_done'' = Inr (PInt pc)"
  proof -
    from assms have "wf_running (py_getitem status ''running_processes'')"
      by (cases status) auto
    with rp have "wf_process p" by simp
    then obtain a' label' eta pc' where p:
      "py_getitem p ''action'' = Inr (PStr a')" "map_of statuses a' = Some label'"
      "py_getitem p ''eta_ms'' = Inr eta" "eta = PNone \<or> (\<exists>e. eta = PInt e)"
      "py_getitem p ''percent_done'' = Inr (PInt pc')" "- (2 ^ 31) \<le> pc'" "pc' < 2 ^ 31"
      by (rule wf_processE)
    from p(4) obtain t where t: "eta_line eta = Inr t"
      by (auto simp: eta_line_int eta_line_none)
    from p(5,6,7) pc have range: "- (2 ^ 31) \<le> pc" "pc < 2 ^ 31" by simp_all
    from show_current_running [OF rp a p(3) t pc range, of w] r show ?thesis by auto
  qed
  from r(2) idle running show ?thesis by blast
qed

theorem progress_rendered_witness:
  "(\<exists>w'. update_status utc snapshot_idle status_info_init = Done w' \<and>
          progress_bar w' = 0 \<and> status_text w' = ''Idle. '') \<and>
   (\<exists>w'. update_status utc snapshot_indexing status_info_init = Done w' \<and>
          progress_bar w' = 0 \<and> status_text w' = ''Incremental file backup running. Indexing.'') \<and>
   (\<exists>w'. update_status utc snapshot_full status_info_init = Done w' \<and>
          progress_bar w' = 42 \<and> status_text w' = ''Full file backup running. 42% done.'')"
proof (intro conjI)
  from progress_rendered [OF wf_idle, of status_info_init]
  show "\<exists>w'. update_status utc snapshot_idle status_info_init = Done w' \<and>
          progress_bar w' = 0 \<and> status_text w' = ''Idle. ''"
    by (simp add: snapshot_idle_def)
next
  from progress_rendered [OF wf_indexing, of status_info_init
      "PDict [(''action'', PStr ''INCR''), (''eta_ms'', PInt (- 1)), (''percent_done'', PInt (- 1))]"
      "[]" "''INCR''" "''Incremental file backup running.''" "- 1"]
  show "\<exists>w'. update_status utc snapshot_indexing status_info_init = Done w' \<and>
          progress_bar w' = 0 \<and> status_text w' = ''Incremental file backup running. Indexing.''"
    by (simp add: snapshot_indexing_def statuses_def)
next
  from progress_rendered [OF wf_full, of status_info_init
      "PDict [(''action'', PStr ''FULL''), (''eta_ms'', PInt 7260000), (''percent_done'', PInt 42)]"
      "[]" "''FULL''" "''Full file backup running.''" 42]
  show "\<exists>w'. update_status utc snapshot_full status_info_init = Done w' \<and>
          progress_bar w' = 42 \<and> status_text w' = ''Full file backup running. 42% done.''"
    by (simp add: snapshot_full_def statuses_def str_int_def str_nat.simps digit_char_def)
qed

text \<open>
  C6. For every well-formed snapshot the connection text is "Waiting for local UrBackup
  server." when the connection status is \<^verbatim>\<open>wait_local\<close>, "No servers" when it is
  \<^verbatim>\<open>no_server\<close>, and otherwise two lines: "Connected to local UrBackup server." exactly
  when the status is \<^verbatim>\<open>connected_local\<close> and "Not connected to local UrBackup server."
  if not, then "Local server last seen M minutes ago." with
  \<open>M = time_since_last_lan_connection div 60000\<close>.
\<close>

theorem connection_text_rendered:
  assumes "well_formed fromtimestamp status"
    and "py_getitem status ''internet_status'' = Inr internet_status"
    and "py_getitem status ''time_since_last_lan_connection'' = Inr (PInt ms)"
  shows "\<exists>w'. update_status fromtimestamp status w = Done w' \<and>
           connect_status w' =
             (if internet_status = PStr ''wait_local'' then ''Waiting for local UrBackup server.''
              else if internet_status = PStr ''no_server'' then ''No servers''
              else (if internet_status = PStr ''connected_local''
                    then ''Connected to local UrBackup server.''
                    else ''Not connected to local UrBackup server.'') @ [CHR 0x0A] @
                   ''Local server last seen '' @ str_int (ms div 60000) @ '' minutes ago.'')"
proof -
  from render_connection [OF assms, of w] obtain w3 where
    "update_status fromtimestamp status w = show_connection status w3" ..
  with show_connection_done [OF assms(2,3), of w3] show ?thesis by simp
qed

theorem connection_text_rendered_witness:
  "(\<exists>w'. update_status utc snapshot_idle status_info_init = Done w' \<and>
          connect_status w' =
            ''Connected to local UrBackup server.'' @ [CHR 0x0A] @
            ''Local server last seen 2 minutes ago.'') \<and>
   (\<exists>w'. update_status utc snapshot_full status_info_init = Done w' \<and>
          connect_status w' = ''Waiting for local UrBackup server.'') \<and>
   (\<exists>w'. update_status utc snapshot_indexing status_info_init = Done w' \<and>
          connect_status w' = ''No servers'')"
proof (intro conjI)
  from connection_text_rendered [OF wf_idle, of "PStr ''connected_local''" 120000 status_info_init]
  show "\<exists>w'. update_status utc snapshot_idle status_info_init = Done w' \<and>
          connect_status w' =
            ''Connected to local UrBackup server.'' @ [CHR 0x0A] @
            ''Local server last seen 2 minutes ago.''"
    by (simp add: snapshot_idle_def str_int_def str_nat.simps digit_char_def)
next
  from connection_text_rendered [OF wf_full, of "PStr ''wait_local''" 0 status_info_init]
  show "\<exists>w'. update_status utc snapshot_full status_info_init = Done w' \<and>
          connect_status w' = ''Waiting for local UrBackup server.''"
    by (simp add: snapshot_full_def)
next
  from connection_text_rendered [OF wf_indexing, of "PStr ''no_server''" 59999 status_info_init]
  show "\<exists>w'. update_status utc snapshot_indexing status_info_init = Done w' \<and>
          connect_status w' = ''No servers''"
    by (simp add: snapshot_indexing_def)
qed

text \<open>
  C7. For every well-formed snapshot with no running process the status text is "Idle. ",
  the idle label, a space and an empty progress part. With a running process the text
  begins with the table's entry for the action of the first process: "Full file backup
  running." for \<^verbatim>\<open>FULL\<close>, "Incremental file backup running." for \<^verbatim>\<open>INCR\<close>, "Idle." for
  \<^verbatim>\<open>IDLE\<close>, each followed by a space and the progress part.
\<close>

theorem status_text_rendered:
  assumes "well_formed fromtimestamp status"
  shows "\<exists>w'. update_status fromtimestamp status w = Done w' \<and>
           (py_getitem status ''running_processes'' = Inr (PList []) \<longrightarrow>
              status_text w' = ''Idle. '') \<and>
           (py_getitem status ''running_processes'' = Inr (PList (p # ps)) \<longrightarrow>
              (py_getitem p ''action'' = Inr (PStr ''FULL'') \<longrightarrow>
                 (\<exists>progress. status_text w' = ''Full file backup running.'' @ '' '' @ progress)) \<and>
              (py_getitem p ''action'' = Inr (PStr ''INCR'') \<longrightarrow>
                 (\<exists>progress. status_text w' =
                    ''Incremental file backup running.'' @ '' '' @ progress)) \<and>
              (py_getitem p ''action'' = Inr (PStr ''IDLE'') \<longrightarrow>
                 (\<exists>progress. status_text w' = ''Idle.'' @ '' '' @ progress)))"
proof -
  from render_current [OF assms, of w] obtain w1 w' where r:
    "show_current status w = Done w1" "update_status fromtimestamp status w = Done w'"
    "status_text w' = status_text w1" by blast
  have idle: "status_text w' = ''Idle. ''"
    if "py_getitem status ''running_processes'' = Inr (PList [])"
    using that r by (auto simp: show_current_idle)
  have running: "\<exists>progress. status_text w' = label @ '' '' @ progress"
    if rp: "py_getitem status ''running_processes'' = Inr (PList (p # ps))"
      and a: "py_getitem p ''action'' = Inr (PStr a)" "map_of statuses a = Some label"
    for a label
  proof -
    from assms have "wf_running (py_getitem status ''running_processes'')"
      by (cases status) auto
    with rp have "wf_process p" by simp
    then obtain a' label' eta pc where p:
      "py_getitem p ''action'' = Inr (PStr a')" "map_of statuses a' = Some label'"
      "py_getitem p ''eta_ms'' = Inr eta" "eta = PNone \<or> (\<exists>e. eta = PInt e)"
      "py_getitem p ''percent_done'' = Inr (PInt pc)" "- (2 ^ 31) \<le> pc" "pc < 2 ^ 31"
      by (rule wf_processE)
    from p(4) obtain t where t: "eta_line eta = Inr t"
      by (auto simp: eta_line_int eta_line_none)
    from show_current_running [OF rp a p(3) t p(5,6,7), of w] r
    have "status_text w' =
            label @ '' '' @ (if pc = - 1 then ''Indexing.'' else str_int pc @ ''% done.'')"
      by auto
    then show ?thesis by blast
  qed
  have "map_of statuses ''FULL'' = Some ''Full file backup running.''"
    "map_of statuses ''INCR'' = Some ''Incremental file backup running.''"
    "map_of statuses ''IDLE'' = Some ''Idle.''"
    by (simp_all add: statuses_def)
  with r(2) idle running show ?thesis by blast
qed

theorem status_text_rendered_witness:
  "(\<exists>w'. update_status utc snapshot_idle status_info_init = Done w' \<and>
          status_text w' = ''Idle. '') \<and>
   (\<exists>w' progress. update_status utc snapshot_full status_info_init = Done w' \<and>
          status_text w' = ''Full file backup running. '' @ progress) \<and>
   (\<exists>w' progress. update_status utc snapshot_indexing status_info_init = Done w' \<and>
          status_text w' = ''Incremental file backup running. '' @ progress)"
proof (intro conjI)
  from status_text_rendered [OF wf_idle, of status_info_init]
  show "\<exists>w'. update_status utc snapshot_idle status_info_init = Done w' \<and>
          status_text w' = ''Idle. ''"
    by (simp add: snapshot_idle_def)
next
  from status_text_rendered [OF wf_full, of status_info_init
      "PDict [(''action'', PStr ''FULL''), (''eta_ms'', PInt 7260000), (''percent_done'', PInt 42)]"
      "[]"]
  show "\<exists>w' progress. update_status utc snapshot_full status_info_init = Done w' \<and>
          status_text w' = ''Full file backup running. '' @ progress"
    by (simp add: snapshot_full_def)
next
  from status_text_rendered [OF wf_indexing, of status_info_init
      "PDict [(''action'', PStr ''INCR''), (''eta_ms'', PInt (- 1)), (''percent_done'', PInt (- 1))]"
      "[]"]
  show "\<exists>w' progress. update_status utc snapshot_indexing status_info_init = Done w' \<and>
          status_text w' = ''Incremental file backup running. '' @ progress"
    by (simp add: snapshot_indexing_def)
qed

text \<open>
  C8 does not hold of the code. Lines 164 to 167 write the label of the last backup only
  when the snapshot has the key and have no other branch, so a snapshot without the key
  leaves on the label what an earlier render put there: after \<^const>\<open>snapshot_full\<close>, the
  render of \<^const>\<open>snapshot_idle\<close>, which has no \<^verbatim>\<open>last_backup_time\<close>, still shows the date
  of the earlier snapshot (here on a host whose local time is UTC).
\<close>

theorem last_backup_label_left_over:
  "update_status utc snapshot_full status_info_init =
     Done \<lparr>status_text = ''Full file backup running. 42% done.'',
           eta_text = ''ETA: 2 hours 121 minutes'', progress_bar = 42,
           last_backup = ''Last backup on 11/14/2023 10:13:20 PM'', servers = [],
           connect_status = ''Waiting for local UrBackup server.''\<rparr> \<and>
   update_status utc snapshot_idle
     \<lparr>status_text = ''Full file backup running. 42% done.'',
      eta_text = ''ETA: 2 hours 121 minutes'', progress_bar = 42,
      last_backup = ''Last backup on 11/14/2023 10:13:20 PM'', servers = [],
      connect_status = ''Waiting for local UrBackup server.''\<rparr> =
     Done \<lparr>status_text = ''Idle. '', eta_text = [], progress_bar = 0,
           last_backup = ''Last backup on 11/14/2023 10:13:20 PM'',
           servers = [''srv1 (Internet: Yes)''],
           connect_status = ''Connected to local UrBackup server.'' @ [CHR 0x0A] @
             ''Local server last seen 2 minutes ago.''\<rparr>"
  by (simp add: eval_full) (simp add: snapshot_idle_def render_defs)






text \<open>
  C10. When the first running process of a snapshot has an action that is a string
  outside \<^verbatim>\<open>FULL\<close>, \<^verbatim>\<open>INCR\<close> and \<^verbatim>\<open>IDLE\<close>, the panel's method raises \<^verbatim>\<open>KeyError\<close> and
  leaves every widget as it was: the render completes only when that action is one of
  the three.
\<close>

theorem unknown_action_raises:
  assumes "py_getitem status ''running_processes'' = Inr (PList (p # ps))"
    and "py_getitem p ''action'' = Inr (PStr a)"
    and "a \<notin> {''FULL'', ''INCR'', ''IDLE''}"
  shows "\<exists>k. update_status fromtimestamp status w = Raised (KeyError k) w"
proof -
  from assms(1) obtain d where d: "status = PDict d"
    by (cases status) auto
  from assms(2) obtain m where m: "p = PDict m"
    by (cases p) auto
  from assms(3) have unknown: "statuses_getitem (PStr a) = Inl (KeyError (PStr a))"
    by (simp add: statuses_def)
  have "\<exists>k. show_current status w = Raised (KeyError k) w"
  proof (cases "map_of m ''eta_ms''")
    case None
    with assms(1,2) m have "read_process status = Inl (KeyError (PStr ''eta_ms''))"
      by (simp add: read_process_def)
    then show ?thesis by (simp add: show_current_def)
  next
    case eta: (Some eta)
    show ?thesis
    proof (cases "map_of m ''percent_done''")
      case None
      with assms(1,2) m eta have "read_process status = Inl (KeyError (PStr ''percent_done''))"
        by (simp add: read_process_def)
      then show ?thesis by (simp add: show_current_def)
    next
      case (Some percent)
      with assms(1,2) m eta have "\<exists>progress percent'.
        read_process status = Inr (PStr a, progress, percent', eta)"
        by (cases "py_eq_int percent (- 1)") (simp_all add: read_process_def)
      then obtain progress percent' where
        "read_process status = Inr (PStr a, progress, percent', eta)" by blast
      with unknown show ?thesis by (simp add: show_current_def)
    qed
  qed
  with d show ?thesis by (auto simp: update_status_def)
qed

theorem unknown_action_raises_witness:
  "\<exists>k. update_status utc snapshot_restore status_info_init = Raised (KeyError k) status_info_init"
  using unknown_action_raises
          [of snapshot_restore
              "PDict [(''action'', PStr ''RESTORE''), (''eta_ms'', PInt 1000),
                      (''percent_done'', PInt 10)]"
              "[]" "''RESTORE''" utc status_info_init]
  by (simp add: snapshot_restore_def)

end
